theory Spec2Isabelle
  imports Complex_Main
begin

section \<open>Free-slot packing: the three variants of findFreeSlots\<close>

text \<open>
  The repository holds three variants of the meeting-suggestion code:
  \<^item> \<^verbatim>\<open>src/src/index.ts\<close> (suffix \<open>_index\<close>): one slot per gap;
  \<^item> \<^verbatim>\<open>src/unnamed/part_000\<close> (suffix \<open>_part0\<close>): a counted \<^verbatim>\<open>for\<close> loop per gap;
  \<^item> \<^verbatim>\<open>src/unnamed/part_001\<close> (suffix \<open>_part1\<close>): a \<^verbatim>\<open>while\<close> loop per gap, dates by Luxon.

  What index.ts and part_000 share word for word is modelled once (suffix \<open>_js\<close>).

  An instant is the millisecond count of a JavaScript \<^verbatim>\<open>Date\<close> (\<^verbatim>\<open>getTime()\<close>), an unbounded
  integer here. A meeting length is a whole number of minutes. JavaScript's double
  arithmetic is read as exact rational arithmetic, except that division by zero gives
  \<^verbatim>\<open>Infinity\<close>, which is written out where the source divides. Date strings are taken to
  parse.
\<close>

type_synonym instant = int

record interval =
  start_t :: instant
  end_t :: instant

text \<open>\<^verbatim>\<open>(b.getTime() - a.getTime()) / (60 * 1000)\<close>\<close>

definition gapMinutes :: "instant \<Rightarrow> instant \<Rightarrow> rat" where
  "gapMinutes a b = of_int (b - a) / 60000"

text \<open>\<^verbatim>\<open>{ start: new Date(p), end: new Date(p + meetingLengthMinutes * 60000) }\<close>\<close>

definition slot_at :: "instant \<Rightarrow> int \<Rightarrow> interval" where
  "slot_at p m = \<lparr>start_t = p, end_t = p + m * 60000\<rparr>"

text \<open>
  \<^verbatim>\<open>busySlots.filter(slot => new Date(slot.start) < dayEnd && new Date(slot.end) > dayStart)
           .sort((a, b) => new Date(a.start).getTime() - new Date(b.start).getTime())\<close>
  The sort of JavaScript is stable, as \<^const>\<open>sort_key\<close> is.
\<close>

definition sortedBusySlots :: "interval list \<Rightarrow> instant \<Rightarrow> instant \<Rightarrow> interval list" where
  "sortedBusySlots busySlots dayStart dayEnd =
     sort_key start_t (filter (\<lambda>slot. start_t slot < dayEnd \<and> end_t slot > dayStart) busySlots)"

subsection \<open>src/src/index.ts\<close>

text \<open>The \<^verbatim>\<open>for (const busy of sortedBusySlots)\<close> loop, on the state (pointer, freeSlots).\<close>

fun busy_loop_index :: "int \<Rightarrow> interval list \<Rightarrow> instant \<Rightarrow> interval list \<Rightarrow> instant \<times> interval list" where
  "busy_loop_index m [] pointer freeSlots = (pointer, freeSlots)"
| "busy_loop_index m (busy # rest) pointer freeSlots =
     (let busyStart = start_t busy;
          busyEnd = end_t busy;
          freeSlots' =
            (if pointer < busyStart \<and> gapMinutes pointer busyStart \<ge> of_int m
             then freeSlots @ [slot_at pointer m] else freeSlots);
          pointer' = (if pointer < busyEnd then busyEnd else pointer)
      in busy_loop_index m rest pointer' freeSlots')"

definition findFreeSlots_index :: "interval list \<Rightarrow> instant \<Rightarrow> instant \<Rightarrow> int \<Rightarrow> interval list" where
  "findFreeSlots_index busySlots dayStart dayEnd meetingLengthMinutes =
     (case busy_loop_index meetingLengthMinutes (sortedBusySlots busySlots dayStart dayEnd) dayStart [] of
        (pointer, freeSlots) \<Rightarrow>
          if pointer < dayEnd \<and> gapMinutes pointer dayEnd \<ge> of_int meetingLengthMinutes
          then freeSlots @ [slot_at pointer meetingLengthMinutes] else freeSlots)"

subsection \<open>src/unnamed/part_000\<close>

text \<open>
  \<^verbatim>\<open>const slotsToAdd = Math.floor(gapMinutes / meetingLengthMinutes)\<close>. It is computed only
  where \<^verbatim>\<open>pointer < busyStart\<close>, so \<^verbatim>\<open>gapMinutes\<close> is positive there and a zero meeting length
  gives \<^verbatim>\<open>Infinity\<close>.
\<close>

datatype count = Fin int | Infinity

definition slotsToAdd :: "rat \<Rightarrow> int \<Rightarrow> count" where
  "slotsToAdd gap m = (if m = 0 then Infinity else Fin \<lfloor>gap / of_int m\<rfloor>)"

fun count_less :: "int \<Rightarrow> count \<Rightarrow> bool" where
  "count_less i (Fin n) = (i < n)"
| "count_less i Infinity = True"

text \<open>
  \<^verbatim>\<open>for (let i = 0; i < slotsToAdd; i++) { slotStart = pointer + i * meetingLengthMinutes * 60000; push }\<close>.
  The loop does not end when \<^verbatim>\<open>slotsToAdd\<close> is \<^verbatim>\<open>Infinity\<close>: the value is then \<open>None\<close>.
\<close>

partial_function (option) add_slots_part0 ::
  "instant \<Rightarrow> int \<Rightarrow> count \<Rightarrow> int \<Rightarrow> interval list \<Rightarrow> interval list option" where
  "add_slots_part0 pointer m n i freeSlots =
     (if count_less i n
      then add_slots_part0 pointer m n (i + 1) (freeSlots @ [slot_at (pointer + i * m * 60000) m])
      else Some freeSlots)"

declare add_slots_part0.simps [code]

text \<open>The gap test and the packing of one gap \<^verbatim>\<open>[pointer, limit)\<close>, as both places of the source have it.\<close>

definition fill_gap_part0 :: "int \<Rightarrow> instant \<Rightarrow> instant \<Rightarrow> interval list \<Rightarrow> interval list option" where
  "fill_gap_part0 m pointer limit freeSlots =
     (if pointer < limit \<and> gapMinutes pointer limit \<ge> of_int m
      then add_slots_part0 pointer m (slotsToAdd (gapMinutes pointer limit) m) 0 freeSlots
      else Some freeSlots)"

fun busy_loop_part0 ::
  "int \<Rightarrow> interval list \<Rightarrow> instant \<Rightarrow> interval list \<Rightarrow> (instant \<times> interval list) option" where
  "busy_loop_part0 m [] pointer freeSlots = Some (pointer, freeSlots)"
| "busy_loop_part0 m (busy # rest) pointer freeSlots =
     (let busyStart = start_t busy;
          busyEnd = end_t busy
      in case fill_gap_part0 m pointer busyStart freeSlots of
           None \<Rightarrow> None
         | Some freeSlots' \<Rightarrow>
             busy_loop_part0 m rest (if pointer < busyEnd then busyEnd else pointer) freeSlots')"

definition findFreeSlots_part0 :: "interval list \<Rightarrow> instant \<Rightarrow> instant \<Rightarrow> int \<Rightarrow> interval list option" where
  "findFreeSlots_part0 busySlots dayStart dayEnd meetingLengthMinutes =
     (case busy_loop_part0 meetingLengthMinutes (sortedBusySlots busySlots dayStart dayEnd) dayStart [] of
        None \<Rightarrow> None
      | Some (pointer, freeSlots) \<Rightarrow> fill_gap_part0 meetingLengthMinutes pointer dayEnd freeSlots)"

subsection \<open>src/unnamed/part_001\<close>

text \<open>
  \<^verbatim>\<open>while (limit.getTime() - pointer.getTime() >= meetingLengthMinutes * 60000) { push; pointer.setTime(...) }\<close>:
  the two \<^verbatim>\<open>while\<close> loops of the source, whose limit is \<^verbatim>\<open>busyStart\<close> and \<^verbatim>\<open>dayEnd\<close>. The loop
  may run forever: the value is then \<open>None\<close>.
\<close>

partial_function (option) fill_gap_part1 ::
  "int \<Rightarrow> instant \<Rightarrow> instant \<Rightarrow> interval list \<Rightarrow> (instant \<times> interval list) option" where
  "fill_gap_part1 m limit pointer freeSlots =
     (if limit - pointer \<ge> m * 60000
      then fill_gap_part1 m limit (pointer + m * 60000) (freeSlots @ [slot_at pointer m])
      else Some (pointer, freeSlots))"

declare fill_gap_part1.simps [code]

fun busy_loop_part1 ::
  "int \<Rightarrow> interval list \<Rightarrow> instant \<Rightarrow> interval list \<Rightarrow> (instant \<times> interval list) option" where
  "busy_loop_part1 m [] pointer freeSlots = Some (pointer, freeSlots)"
| "busy_loop_part1 m (busy # rest) pointer freeSlots =
     (let busyStart = start_t busy;
          busyEnd = end_t busy
      in case fill_gap_part1 m busyStart pointer freeSlots of
           None \<Rightarrow> None
         | Some (pointer', freeSlots') \<Rightarrow>
             busy_loop_part1 m rest (if pointer' < busyEnd then busyEnd else pointer') freeSlots')"

definition findFreeSlots_part1 :: "interval list \<Rightarrow> instant \<Rightarrow> instant \<Rightarrow> int \<Rightarrow> interval list option" where
  "findFreeSlots_part1 busySlots dayStart dayEnd meetingLengthMinutes =
     (case busy_loop_part1 meetingLengthMinutes (sortedBusySlots busySlots dayStart dayEnd) dayStart [] of
        None \<Rightarrow> None
      | Some (pointer, freeSlots) \<Rightarrow>
          (case fill_gap_part1 meetingLengthMinutes dayEnd pointer freeSlots of
             None \<Rightarrow> None
           | Some (pointer', freeSlots') \<Rightarrow> Some freeSlots'))"

section \<open>Dates and time zones\<close>

text \<open>
  A time zone is a fixed offset from UTC in milliseconds (local time = UTC + offset):
  the horizon is taken to hold no daylight-saving change. A civil day is its number of
  days since 1970-01-01, a Thursday.
\<close>

type_synonym offset = int

definition DAY :: int where
  "DAY = 86400000"

definition HOUR :: int where
  "HOUR = 3600000"

definition localDay :: "offset \<Rightarrow> instant \<Rightarrow> int" where
  "localDay off t = (t + off) div DAY"

text \<open>The instant at which civil day \<open>d\<close> begins in the zone.\<close>

definition localMidnight :: "offset \<Rightarrow> int \<Rightarrow> instant" where
  "localMidnight off d = d * DAY - off"

text \<open>The proleptic Gregorian date (year, month, day) of a civil day.\<close>

definition civil_from_days :: "int \<Rightarrow> int \<times> int \<times> int" where
  "civil_from_days z =
     (let z' = z + 719468;
          era = z' div 146097;
          doe = z' mod 146097;
          yoe = (doe - doe div 1460 + doe div 36524 - doe div 146096) div 365;
          doy = doe - (365 * yoe + yoe div 4 - yoe div 100);
          mp = (5 * doy + 2) div 153;
          d = doy - (153 * mp + 2) div 5 + 1;
          m = (if mp < 10 then mp + 3 else mp - 9);
          y = yoe + era * 400 + (if m \<le> 2 then 1 else 0)
      in (y, m, d))"

definition digit :: "int \<Rightarrow> char" where
  "digit n = ''0123456789'' ! nat (n mod 10)"

text \<open>\<^verbatim>\<open>YYYY-MM-DD\<close>, for the years 0000 to 9999.\<close>

definition isoDate :: "int \<Rightarrow> string" where
  "isoDate z =
     (case civil_from_days z of
        (y, m, d) \<Rightarrow>
          [digit (y div 1000), digit (y div 100), digit (y div 10), digit y, CHR ''-'',
           digit (m div 10), digit m, CHR ''-'', digit (d div 10), digit d])"

subsection \<open>The JavaScript Date of index.ts and part_000, in the host's zone\<close>

text \<open>\<^verbatim>\<open>d.getDay()\<close>: 0 is Sunday, 6 is Saturday.\<close>

definition getDay :: "offset \<Rightarrow> instant \<Rightarrow> int" where
  "getDay host t = (localDay host t + 4) mod 7"

text \<open>\<^verbatim>\<open>d.setHours(h, 0, 0, 0)\<close>\<close>

definition setHours :: "offset \<Rightarrow> instant \<Rightarrow> int \<Rightarrow> instant" where
  "setHours host t h = localDay host t * DAY + h * HOUR - host"

text \<open>\<^verbatim>\<open>d.setDate(d.getDate() + k)\<close>\<close>

definition addDays :: "instant \<Rightarrow> int \<Rightarrow> instant" where
  "addDays t k = t + k * DAY"

text \<open>
  \<^verbatim>\<open>new Date(d.toLocaleString('en-US', { timeZone: timezone }))\<close>: the wall clock of the
  request's zone, to the second, read again as a time of the host's zone.
\<close>

definition viaLocaleString :: "offset \<Rightarrow> offset \<Rightarrow> instant \<Rightarrow> instant" where
  "viaLocaleString host tz t = (t + tz) div 1000 * 1000 - host"

text \<open>\<^verbatim>\<open>d.toISOString().split('T')[0]\<close>: the date in UTC.\<close>

definition isoDateUTC :: "instant \<Rightarrow> string" where
  "isoDateUTC t = isoDate (t div DAY)"

text \<open>
  The \<^verbatim>\<open>startDate\<close> argument is an ISO 8601 string: with an offset or \<^verbatim>\<open>Z\<close> it names an
  instant; without one it names a civil day and a time of day (in milliseconds); a
  date-only string names a civil day.
\<close>

datatype iso_string = WithOffset instant | LocalDateTime int int | DateOnly int

text \<open>\<^verbatim>\<open>new Date(s)\<close>: a date-only string is UTC, a date-time with no offset is host time.\<close>

fun parseDate :: "offset \<Rightarrow> iso_string \<Rightarrow> instant" where
  "parseDate host (WithOffset t) = t"
| "parseDate host (LocalDateTime d ms) = d * DAY + ms - host"
| "parseDate host (DateOnly d) = d * DAY"

subsection \<open>The Luxon DateTime of part_001, in the request's zone\<close>

text \<open>\<^verbatim>\<open>DateTime.fromISO(s, { zone: timezone })\<close>: a string with no offset is a time of the zone.\<close>

fun fromISO :: "offset \<Rightarrow> iso_string \<Rightarrow> instant" where
  "fromISO tz (WithOffset t) = t"
| "fromISO tz (LocalDateTime d ms) = d * DAY + ms - tz"
| "fromISO tz (DateOnly d) = d * DAY - tz"

definition startOfDay :: "offset \<Rightarrow> instant \<Rightarrow> instant" where
  "startOfDay tz t = localMidnight tz (localDay tz t)"

definition endOfDay :: "offset \<Rightarrow> instant \<Rightarrow> instant" where
  "endOfDay tz t = startOfDay tz t + DAY - 1"

text \<open>\<^verbatim>\<open>dt.plus({ days: k })\<close>\<close>

definition plusDays :: "instant \<Rightarrow> int \<Rightarrow> instant" where
  "plusDays t k = t + k * DAY"

text \<open>\<^verbatim>\<open>dt.weekday\<close>: 1 is Monday, 7 is Sunday.\<close>

definition weekday :: "offset \<Rightarrow> instant \<Rightarrow> int" where
  "weekday tz t = (localDay tz t + 3) mod 7 + 1"

text \<open>\<^verbatim>\<open>dt.toISODate()\<close>\<close>

definition toISODate :: "offset \<Rightarrow> instant \<Rightarrow> string" where
  "toISODate tz t = isoDate (localDay tz t)"

text \<open>\<^verbatim>\<open>dt.set({ hour: h, minute: 0, second: 0, millisecond: 0 })\<close>\<close>

definition setHour :: "offset \<Rightarrow> instant \<Rightarrow> int \<Rightarrow> instant" where
  "setHour tz t h = localDay tz t * DAY + h * HOUR - tz"

section \<open>The request and its defaults\<close>

text \<open>
  A field is \<open>None\<close> when the request leaves it out. \<^verbatim>\<open>args?.x || d\<close> takes the default
  for every falsy value: a missing field, the number 0, the empty string. An array is
  never falsy. A \<^verbatim>\<open>startDate\<close> of \<open>None\<close> is a missing or empty string.
\<close>

record args =
  meetingLengthMinutes :: "int option"
  workingHoursStart :: "int option"
  workingHoursEnd :: "int option"
  timezone :: "string option"
  slotsPerDay :: "int option"
  daysToSearch :: "int option"
  maxDaysToLookAhead :: "int option"
  bankHolidays :: "string list option"
  calendarIds :: "string list option"
  startDate :: "iso_string option"

definition num_or :: "int option \<Rightarrow> int \<Rightarrow> int" where
  "num_or v d = (case v of None \<Rightarrow> d | Some n \<Rightarrow> if n = 0 then d else n)"

definition str_or :: "string option \<Rightarrow> string \<Rightarrow> string" where
  "str_or v d = (case v of None \<Rightarrow> d | Some s \<Rightarrow> if s = [] then d else s)"

definition list_or :: "'a list option \<Rightarrow> 'a list \<Rightarrow> 'a list" where
  "list_or v d = (case v of None \<Rightarrow> d | Some xs \<Rightarrow> xs)"

text \<open>The nine constants at the head of \<^verbatim>\<open>handleMeetingSuggestion\<close>, the same in the three files.\<close>

record config =
  meetingLength :: int
  workStartHour :: int
  workEndHour :: int
  zoneName :: string
  perDay :: int
  toSearch :: int
  lookAhead :: int
  holidays :: "string list"
  calendars :: "string list"

definition defaults :: "args \<Rightarrow> config" where
  "defaults a =
     \<lparr>meetingLength = num_or (meetingLengthMinutes a) 60,
      workStartHour = num_or (workingHoursStart a) 9,
      workEndHour = num_or (workingHoursEnd a) 17,
      zoneName = str_or (timezone a) ''America/Sao_Paulo'',
      perDay = num_or (slotsPerDay a) 1,
      toSearch = num_or (daysToSearch a) 3,
      lookAhead = num_or (maxDaysToLookAhead a) 30,
      holidays = list_or (bankHolidays a) [],
      calendars = list_or (calendarIds a) [''primary'']\<rparr>"

text \<open>
  What the handler reads besides the request: the clock, the host's zone, and the offset
  of a zone name.
\<close>

record env =
  now :: instant
  hostOffset :: offset
  zoneOffset :: "string \<Rightarrow> offset"

section \<open>The free/busy query\<close>

record query =
  timeMin :: instant
  timeMax :: instant
  timeZone :: "string option"
  items :: "string list"

text \<open>A busy entry of the response; a missing or empty \<^verbatim>\<open>start\<close> or \<^verbatim>\<open>end\<close> is \<open>None\<close>.\<close>

record raw_busy =
  raw_start :: "instant option"
  raw_end :: "instant option"

type_synonym response = "string \<rightharpoonup> raw_busy list"

text \<open>The call either fails with a message or answers.\<close>

type_synonym fetcher = "query \<Rightarrow> string + response"

text \<open>
  \<^verbatim>\<open>calendarIds.flatMap(id => busyResponse.data.calendars?.[id]?.busy || [])
             .filter(slot => !!slot.start && !!slot.end)\<close>
\<close>

definition busy_of :: "response \<Rightarrow> string \<Rightarrow> raw_busy list" where
  "busy_of resp cid = (case resp cid of None \<Rightarrow> [] | Some bs \<Rightarrow> bs)"

definition complete_busy :: "raw_busy \<Rightarrow> interval option" where
  "complete_busy slot =
     (case (raw_start slot, raw_end slot) of
        (Some s, Some e) \<Rightarrow> Some \<lparr>start_t = s, end_t = e\<rparr>
      | _ \<Rightarrow> None)"

definition busySlots_of :: "response \<Rightarrow> string list \<Rightarrow> interval list" where
  "busySlots_of resp ids = List.map_filter complete_busy (concat (map (busy_of resp) ids))"

text \<open>
  The handler's answer: the suggestions (their instants stand for the ISO strings of the
  JSON text), or the message of the \<^verbatim>\<open>catch\<close> branch with \<^verbatim>\<open>isError: true\<close>.
\<close>

datatype tool_result = Content "interval list" | ToolError string

section \<open>The day walk\<close>

text \<open>The variables of the \<^verbatim>\<open>while\<close> loop.\<close>

record walk_state =
  dayPointer :: instant
  daysWithSlotsFound :: int
  suggestions :: "interval list"

definition advance :: "walk_state \<Rightarrow> walk_state" where
  "advance s = s\<lparr>dayPointer := dayPointer s + DAY\<rparr>"

subsection \<open>index.ts and part_000\<close>

text \<open>
  The two files have the same loop; each calls its own \<^verbatim>\<open>findFreeSlots\<close>, passed here
  as \<open>findFreeSlots\<close> (\<open>None\<close> when the call does not return).
\<close>

type_synonym finder = "interval list \<Rightarrow> instant \<Rightarrow> instant \<Rightarrow> int \<Rightarrow> interval list option"

text \<open>\<^verbatim>\<open>dayOfWeek !== 0 && dayOfWeek !== 6 && !bankHolidays.includes(formattedDate)\<close>\<close>

definition eligible_js :: "offset \<Rightarrow> config \<Rightarrow> instant \<Rightarrow> bool" where
  "eligible_js host cfg p =
     (let dayOfWeek = getDay host p;
          formattedDate = isoDateUTC p
      in dayOfWeek \<noteq> 0 \<and> dayOfWeek \<noteq> 6 \<and> formattedDate \<notin> set (holidays cfg))"

text \<open>\<^verbatim>\<open>xs.slice(0, n)\<close>: a negative \<open>n\<close> counts from the end.\<close>

definition slice0 :: "'a list \<Rightarrow> int \<Rightarrow> 'a list" where
  "slice0 xs n = (if n < 0 then take (nat (int (length xs) + n)) xs else take (nat n) xs)"

text \<open>One turn of the loop body.\<close>

definition day_step_js :: "finder \<Rightarrow> offset \<Rightarrow> config \<Rightarrow> interval list \<Rightarrow> walk_state \<Rightarrow> walk_state option" where
  "day_step_js findFreeSlots host cfg busySlots s =
     (if eligible_js host cfg (dayPointer s) then
        (let dayStart = setHours host (dayPointer s) (workStartHour cfg);
             dayEnd = setHours host (dayPointer s) (workEndHour cfg)
         in case findFreeSlots busySlots dayStart dayEnd (meetingLength cfg) of
              None \<Rightarrow> None
            | Some freeSlots \<Rightarrow>
                if length freeSlots > 0
                then Some (advance (s\<lparr>suggestions := suggestions s @ slice0 freeSlots (perDay cfg),
                                        daysWithSlotsFound := daysWithSlotsFound s + 1\<rparr>))
                else Some (advance s))
      else Some (advance s))"

lemma day_step_js_pointer:
  "day_step_js findFreeSlots host cfg busySlots s = Some s' \<Longrightarrow> dayPointer s' = dayPointer s + DAY"
  by (auto simp: day_step_js_def advance_def Let_def split: if_splits option.splits)

text \<open>\<^verbatim>\<open>while (daysWithSlotsFound < daysToSearch && dayPointer < endDate) { ... }\<close>\<close>

function walk_js ::
  "finder \<Rightarrow> offset \<Rightarrow> config \<Rightarrow> interval list \<Rightarrow> instant \<Rightarrow> walk_state \<Rightarrow> walk_state option" where
  "walk_js findFreeSlots host cfg busySlots endDate s =
     (if daysWithSlotsFound s < toSearch cfg \<and> dayPointer s < endDate
      then case day_step_js findFreeSlots host cfg busySlots s of
             None \<Rightarrow> None
           | Some s' \<Rightarrow> walk_js findFreeSlots host cfg busySlots endDate s'
      else Some s)"
  by pat_completeness auto
termination
  by (relation "measure (\<lambda>(findFreeSlots, host, cfg, busySlots, endDate, s). nat (endDate - dayPointer s))")
     (auto simp: DAY_def dest!: day_step_js_pointer)

subsection \<open>part_001\<close>

text \<open>\<^verbatim>\<open>dayOfWeek < 6 && !bankHolidays.includes(formattedDate)\<close>\<close>

definition eligible_part1 :: "offset \<Rightarrow> config \<Rightarrow> instant \<Rightarrow> bool" where
  "eligible_part1 tz cfg p =
     (let dayOfWeek = weekday tz p;
          formattedDate = toISODate tz p
      in dayOfWeek < 6 \<and> formattedDate \<notin> set (holidays cfg))"

text \<open>
  \<^verbatim>\<open>for (const slot of freeSlots) { if (slotsAddedToday >= slotsPerDay) break; push; slotsAddedToday++ }\<close>
\<close>

fun collect_part1 :: "int \<Rightarrow> interval list \<Rightarrow> int \<Rightarrow> interval list \<Rightarrow> interval list" where
  "collect_part1 n [] slotsAddedToday acc = acc"
| "collect_part1 n (slot # rest) slotsAddedToday acc =
     (if slotsAddedToday \<ge> n then acc
      else collect_part1 n rest (slotsAddedToday + 1) (acc @ [slot]))"

definition day_step_part1 :: "offset \<Rightarrow> config \<Rightarrow> interval list \<Rightarrow> walk_state \<Rightarrow> walk_state option" where
  "day_step_part1 tz cfg busySlots s =
     (if eligible_part1 tz cfg (dayPointer s) then
        (let dayStart = setHour tz (dayPointer s) (workStartHour cfg);
             dayEnd = setHour tz (dayPointer s) (workEndHour cfg)
         in case findFreeSlots_part1 busySlots dayStart dayEnd (meetingLength cfg) of
              None \<Rightarrow> None
            | Some freeSlots \<Rightarrow>
                Some (advance (s\<lparr>suggestions := collect_part1 (perDay cfg) freeSlots 0 (suggestions s),
                                  daysWithSlotsFound := daysWithSlotsFound s + 1\<rparr>)))
      else Some (advance s))"

lemma day_step_part1_pointer:
  "day_step_part1 tz cfg busySlots s = Some s' \<Longrightarrow> dayPointer s' = dayPointer s + DAY"
  by (auto simp: day_step_part1_def advance_def Let_def split: if_splits option.splits)

function walk_part1 ::
  "offset \<Rightarrow> config \<Rightarrow> interval list \<Rightarrow> instant \<Rightarrow> walk_state \<Rightarrow> walk_state option" where
  "walk_part1 tz cfg busySlots endDate s =
     (if daysWithSlotsFound s < toSearch cfg \<and> dayPointer s < endDate
      then case day_step_part1 tz cfg busySlots s of
             None \<Rightarrow> None
           | Some s' \<Rightarrow> walk_part1 tz cfg busySlots endDate s'
      else Some s)"
  by pat_completeness auto
termination
  by (relation "measure (\<lambda>(tz, cfg, busySlots, endDate, s). nat (endDate - dayPointer s))")
     (auto simp: DAY_def dest!: day_step_part1_pointer)

section \<open>handleMeetingSuggestion\<close>

text \<open>
  Each handler returns the queries it sent to the calendar service, in order, and its
  answer; the value is \<open>None\<close> when a loop of \<^verbatim>\<open>findFreeSlots\<close> does not end.
\<close>

subsection \<open>index.ts\<close>

definition startDate_index :: "env \<Rightarrow> args \<Rightarrow> instant" where
  "startDate_index e a =
     (let tz = zoneOffset e (zoneName (defaults a));
          startDate0 = (case startDate a of Some str \<Rightarrow> parseDate (hostOffset e) str | None \<Rightarrow> now e);
          startDate1 = viaLocaleString (hostOffset e) tz startDate0;
          startDate2 = addDays startDate1 (case startDate a of Some str \<Rightarrow> 0 | None \<Rightarrow> 1)
      in setHours (hostOffset e) startDate2 0)"

definition query_index :: "env \<Rightarrow> args \<Rightarrow> query" where
  "query_index e a =
     \<lparr>timeMin = startDate_index e a,
      timeMax = addDays (startDate_index e a) (lookAhead (defaults a)),
      timeZone = Some (zoneName (defaults a)),
      items = calendars (defaults a)\<rparr>"

definition handle_index :: "env \<Rightarrow> fetcher \<Rightarrow> args \<Rightarrow> (query list \<times> tool_result) option" where
  "handle_index e fetch a =
     (let cfg = defaults a;
          q = query_index e a
      in case fetch q of
           Inl message \<Rightarrow> Some ([q], ToolError message)
         | Inr resp \<Rightarrow>
             (case walk_js (\<lambda>b ds de m. Some (findFreeSlots_index b ds de m)) (hostOffset e) cfg
                     (busySlots_of resp (calendars cfg)) (timeMax q)
                     \<lparr>dayPointer = timeMin q, daysWithSlotsFound = 0, suggestions = []\<rparr> of
                None \<Rightarrow> None
              | Some s \<Rightarrow> Some ([q], Content (suggestions s))))"

subsection \<open>part_000\<close>

definition startDate_part0 :: "env \<Rightarrow> args \<Rightarrow> instant" where
  "startDate_part0 e a =
     (let tz = zoneOffset e (zoneName (defaults a));
          startDate0 =
            (case startDate a of
               Some str \<Rightarrow> parseDate (hostOffset e) str
             | None \<Rightarrow> addDays (viaLocaleString (hostOffset e) tz (now e)) 1)
      in setHours (hostOffset e) startDate0 0)"

definition query_part0 :: "env \<Rightarrow> args \<Rightarrow> query" where
  "query_part0 e a =
     \<lparr>timeMin = startDate_part0 e a,
      timeMax = addDays (startDate_part0 e a) (lookAhead (defaults a)),
      timeZone = None,
      items = calendars (defaults a)\<rparr>"

definition handle_part0 :: "env \<Rightarrow> fetcher \<Rightarrow> args \<Rightarrow> (query list \<times> tool_result) option" where
  "handle_part0 e fetch a =
     (let cfg = defaults a;
          q = query_part0 e a
      in case fetch q of
           Inl message \<Rightarrow> Some ([q], ToolError message)
         | Inr resp \<Rightarrow>
             (case walk_js findFreeSlots_part0 (hostOffset e) cfg
                     (busySlots_of resp (calendars cfg)) (timeMax q)
                     \<lparr>dayPointer = timeMin q, daysWithSlotsFound = 0, suggestions = []\<rparr> of
                None \<Rightarrow> None
              | Some s \<Rightarrow> Some ([q], Content (suggestions s))))"

subsection \<open>part_001\<close>

definition startDate_part1 :: "env \<Rightarrow> args \<Rightarrow> instant" where
  "startDate_part1 e a =
     (let tz = zoneOffset e (zoneName (defaults a))
      in case startDate a of
           Some str \<Rightarrow> startOfDay tz (fromISO tz str)
         | None \<Rightarrow> startOfDay tz (plusDays (now e) 1))"

definition query_part1 :: "env \<Rightarrow> args \<Rightarrow> query" where
  "query_part1 e a =
     \<lparr>timeMin = startDate_part1 e a,
      timeMax = endOfDay (zoneOffset e (zoneName (defaults a)))
                  (plusDays (startDate_part1 e a) (lookAhead (defaults a))),
      timeZone = Some (zoneName (defaults a)),
      items = calendars (defaults a)\<rparr>"

definition handle_part1 :: "env \<Rightarrow> fetcher \<Rightarrow> args \<Rightarrow> (query list \<times> tool_result) option" where
  "handle_part1 e fetch a =
     (let cfg = defaults a;
          q = query_part1 e a
      in case fetch q of
           Inl message \<Rightarrow> Some ([q], ToolError message)
         | Inr resp \<Rightarrow>
             (case walk_part1 (zoneOffset e (zoneName cfg)) cfg
                     (busySlots_of resp (calendars cfg)) (timeMax q)
                     \<lparr>dayPointer = timeMin q, daysWithSlotsFound = 0, suggestions = []\<rparr> of
                None \<Rightarrow> None
              | Some s \<Rightarrow> Some ([q], Content (suggestions s))))"

section \<open>Notions used to state and prove the properties\<close>

text \<open>\<open>k\<close> back-to-back slots of \<open>m\<close> minutes, the first starting at \<open>p\<close>.\<close>

definition slots_from :: "instant \<Rightarrow> int \<Rightarrow> nat \<Rightarrow> interval list" where
  "slots_from p m k = map (\<lambda>i. slot_at (p + int i * (m * 60000)) m) [0..<k]"


text \<open>Two half-open intervals overlap when each starts before the other ends.\<close>

definition overlaps :: "interval \<Rightarrow> interval \<Rightarrow> bool" where
  "overlaps a b = (start_t a < end_t b \<and> start_t b < end_t a)"

text \<open>
  What one gap contributes, as a function of the cursor and the limit of the gap: the new
  slots and the cursor after them. The three routines are one loop over the sorted busy
  intervals around three such functions.
\<close>

type_synonym packer = "instant \<Rightarrow> instant \<Rightarrow> interval list \<times> instant"

fun gen_loop :: "packer \<Rightarrow> interval list \<Rightarrow> instant \<Rightarrow> interval list \<Rightarrow> instant \<times> interval list" where
  "gen_loop pk [] p fs = (p, fs)"
| "gen_loop pk (b # bs) p fs =
     (case pk p (start_t b) of
        (new, p1) \<Rightarrow> gen_loop pk bs (if p1 < end_t b then end_t b else p1) (fs @ new))"

definition gen_find :: "packer \<Rightarrow> interval list \<Rightarrow> instant \<Rightarrow> instant \<Rightarrow> interval list" where
  "gen_find pk busySlots dayStart dayEnd =
     (case gen_loop pk (sortedBusySlots busySlots dayStart dayEnd) dayStart [] of
        (p, fs) \<Rightarrow> fs @ fst (pk p dayEnd))"

definition pk_index :: "int \<Rightarrow> packer" where
  "pk_index m p l = (if p < l \<and> m * 60000 \<le> l - p then [slot_at p m] else [], p)"

definition pk_part0 :: "int \<Rightarrow> packer" where
  "pk_part0 m p l =
     (if p < l \<and> m * 60000 \<le> l - p then slots_from p m (nat ((l - p) div (60000 * m))) else [], p)"

definition pk_part1 :: "int \<Rightarrow> packer" where
  "pk_part1 m p l =
     (slots_from p m (nat ((l - p) div (m * 60000))), p + int (nat ((l - p) div (m * 60000))) * (m * 60000))"

definition good_packer :: "int \<Rightarrow> packer \<Rightarrow> bool" where
  "good_packer m pk = (\<forall>p l. p \<le> snd (pk p l) \<and>
     (\<forall>s \<in> set (fst (pk p l)). p \<le> start_t s \<and> end_t s \<le> l \<and> end_t s - start_t s = m * 60000))"


definition slot_ok :: "int \<Rightarrow> interval list \<Rightarrow> instant \<Rightarrow> instant \<Rightarrow> interval \<Rightarrow> bool" where
  "slot_ok m busySlots dayStart dayEnd s =
     (dayStart \<le> start_t s \<and> end_t s \<le> dayEnd \<and> end_t s - start_t s = m * 60000 \<and>
      (\<forall>b \<in> set busySlots. \<not> overlaps s b))"


text \<open>
  The packing as the specification words it. In one gap, from the cursor to a limit: if
  the gap is at least the meeting length, floor(gapMinutes / meetingLength) slots, each
  following the previous one with nothing between them. Over the day: for each busy
  interval in ascending order of start, the slots of the gap before it, then the cursor
  moves to the maximum of itself and the interval's end; last, the slots of the gap up
  to \<open>dayEnd\<close>. The packing is a parameter \<open>g\<close>, so that the one-slot rule of index.ts
  can be put in its place.
\<close>

definition spec_gap_slots :: "int \<Rightarrow> instant \<Rightarrow> instant \<Rightarrow> interval list" where
  "spec_gap_slots m cursor limit =
     (if gapMinutes cursor limit \<ge> of_int m
      then slots_from cursor m (nat \<lfloor>gapMinutes cursor limit / of_int m\<rfloor>) else [])"

fun spec_packing ::
  "(instant \<Rightarrow> instant \<Rightarrow> interval list) \<Rightarrow> interval list \<Rightarrow> instant \<Rightarrow> instant \<Rightarrow> interval list" where
  "spec_packing g [] cursor dayEnd = g cursor dayEnd"
| "spec_packing g (busy # rest) cursor dayEnd =
     g cursor (start_t busy) @ spec_packing g rest (max cursor (end_t busy)) dayEnd"

text \<open>
  A day for the worked examples, in milliseconds from its midnight: three busy
  intervals, given out of order: 12:00 to 13:00, 10:00 to 11:00, and 10:30 to 12:00,
  which overlaps the second and touches the first.
\<close>

definition busy_example :: "interval list" where
  "busy_example =
     [\<lparr>start_t = 43200000, end_t = 46800000\<rparr>,
      \<lparr>start_t = 36000000, end_t = 39600000\<rparr>,
      \<lparr>start_t = 37800000, end_t = 43200000\<rparr>]"

text \<open>
  Inputs for the worked examples: a host and a request zone both at UTC, a request that
  leaves every field out, and a calendar service that reports no busy interval.
\<close>

definition env_utc :: env where
  "env_utc = \<lparr>now = 0, hostOffset = 0, zoneOffset = (\<lambda>z. 0)\<rparr>"

definition no_args :: args where
  "no_args = \<lparr>meetingLengthMinutes = None, workingHoursStart = None, workingHoursEnd = None,
     timezone = None, slotsPerDay = None, daysToSearch = None, maxDaysToLookAhead = None,
     bankHolidays = None, calendarIds = None, startDate = None\<rparr>"

definition free_calendar :: fetcher where
  "free_calendar q = Inr Map.empty"








definition env_sao_paulo :: env where
  "env_sao_paulo = \<lparr>now = 1704157200000, hostOffset = - 10800000,
     zoneOffset = (\<lambda>z. if z = ''America/Sao_Paulo'' then - 10800000 else 0)\<rparr>"

definition env_utc_host :: env where
  "env_utc_host = \<lparr>now = 1704157200000, hostOffset = 0,
     zoneOffset = (\<lambda>z. if z = ''America/Sao_Paulo'' then - 10800000 else 0)\<rparr>"

definition env_berlin :: env where
  "env_berlin = \<lparr>now = 0, hostOffset = 3600000,
     zoneOffset = (\<lambda>z. if z = ''Europe/Berlin'' then 3600000 else 0)\<rparr>"

section \<open>Properties of findFreeSlots\<close>

subsection \<open>Arithmetic of gaps\<close>

lemma gapMinutes_ge: "(of_int m \<le> gapMinutes a b) = (m * 60000 \<le> b - a)"
proof -
  have "(of_int m \<le> gapMinutes a b) = ((of_int m :: rat) * 60000 \<le> of_int (b - a))"
    by (simp add: gapMinutes_def pos_le_divide_eq)
  also have "\<dots> = ((of_int (m * 60000) :: rat) \<le> of_int (b - a))" by simp
  also have "\<dots> = (m * 60000 \<le> b - a)" by (simp only: of_int_le_iff)
  finally show ?thesis .
qed

lemma floor_gapMinutes: "\<lfloor>gapMinutes a b / of_int m\<rfloor> = (b - a) div (60000 * m)"
proof -
  have "gapMinutes a b / of_int m = (of_int (b - a) :: rat) / of_int (60000 * m)"
    by (simp add: gapMinutes_def)
  then show ?thesis by (simp only: floor_divide_of_int_eq)
qed

lemma slots_from_0: "slots_from p m 0 = []" by (simp add: slots_from_def)

lemma slots_from_Suc: "slots_from p m (Suc k) = slot_at p m # slots_from (p + m * 60000) m k"
proof -
  have "[0..<Suc k] = 0 # map Suc [0..<k]" by (simp add: upt_conv_Cons map_Suc_upt del: upt_Suc)
  then show ?thesis by (simp add: slots_from_def algebra_simps comp_def del: upt_Suc)
qed

lemma fill_gap_part1_closed:
  assumes "0 < m"
  shows "k = nat ((limit - p) div (m * 60000)) \<Longrightarrow>
    fill_gap_part1 m limit p fs = Some (p + int k * (m * 60000), fs @ slots_from p m k)"
proof (induction k arbitrary: p fs)
  case 0
  from assms have L: "0 < m * 60000" by simp
  from 0 have "(limit - p) div (m * 60000) \<le> 0" by simp
  with pos_imp_zdiv_pos_iff[OF L, of "limit - p"] have "limit - p < m * 60000" by linarith
  then show ?case by (subst fill_gap_part1.simps) (simp add: slots_from_0)
next
  case (Suc k)
  from assms have L: "0 < m * 60000" by simp
  from Suc.prems have d: "(limit - p) div (m * 60000) = int (Suc k)" by linarith
  with pos_imp_zdiv_pos_iff[OF L, of "limit - p"] have ge: "m * 60000 \<le> limit - p" by linarith
  have "limit - p = (limit - (p + m * 60000)) + m * 60000" by simp
  then have "(limit - p) div (m * 60000) = (limit - (p + m * 60000)) div (m * 60000) + 1"
    using L by (metis div_add_self2 less_irrefl)
  with d have "k = nat ((limit - (p + m * 60000)) div (m * 60000))" by simp
  from Suc.IH[OF this, of "fs @ [slot_at p m]"] ge show ?case
    by (subst fill_gap_part1.simps) (simp add: slots_from_Suc algebra_simps)
qed

lemma add_slots_part0_closed:
  "k = nat (n - i) \<Longrightarrow>
   add_slots_part0 p m (Fin n) i fs = Some (fs @ slots_from (p + i * (m * 60000)) m k)"
proof (induction k arbitrary: i fs)
  case 0
  then show ?case by (subst add_slots_part0.simps) (simp add: slots_from_0)
next
  case (Suc k)
  then have lt: "i < n" and k: "k = nat (n - (i + 1))" by linarith+
  from Suc.IH[OF k, of "fs @ [slot_at (p + i * m * 60000) m]"] lt show ?case
    by (subst add_slots_part0.simps) (simp add: slots_from_Suc algebra_simps)
qed



lemma fill_gap_part1_returns:
  assumes "fill_gap_part1 m limit p fs = Some r"
  shows "m \<le> 0 \<longrightarrow> limit - p < m * 60000"
proof (rule fill_gap_part1.raw_induct[where P = "\<lambda>m limit p fs r. m \<le> 0 \<longrightarrow> limit - p < m * 60000"])
  show "fill_gap_part1 m limit p fs = Some r" by (rule assms)
next
  fix f m limit p fs r
  assume IH: "\<And>m limit p fs r. f m limit p fs = Some r \<Longrightarrow> m \<le> (0::int) \<longrightarrow> limit - p < m * 60000"
    and eq: "(if m * 60000 \<le> limit - p then f m limit (p + m * 60000) (fs @ [slot_at p m])
              else Some (p, fs)) = Some r"
  show "m \<le> 0 \<longrightarrow> limit - p < m * 60000"
  proof (cases "m * 60000 \<le> limit - p")
    case True
    with eq IH have "m \<le> 0 \<longrightarrow> limit - (p + m * 60000) < m * 60000" by simp
    with True show ?thesis by auto
  next
    case False
    then show ?thesis by simp
  qed
qed

lemma fill_gap_part1_diverges:
  "m \<le> 0 \<Longrightarrow> m * 60000 \<le> limit - p \<Longrightarrow> fill_gap_part1 m limit p fs = None"
  using fill_gap_part1_returns[of m limit p fs] by (cases "fill_gap_part1 m limit p fs") auto

lemma busy_loop_index_gen: "busy_loop_index m bs p fs = gen_loop (pk_index m) bs p fs"
  by (induction bs arbitrary: p fs) (simp_all add: pk_index_def gapMinutes_ge Let_def)

lemma findFreeSlots_index_gen:
  "findFreeSlots_index busy ds de m = gen_find (pk_index m) busy ds de"
  by (auto simp add: findFreeSlots_index_def gen_find_def busy_loop_index_gen pk_index_def gapMinutes_ge
      split: prod.splits)

lemma fill_gap_part0_closed:
  "m \<noteq> 0 \<Longrightarrow> fill_gap_part0 m p l fs = Some (fs @ fst (pk_part0 m p l))"
  by (simp add: fill_gap_part0_def pk_part0_def gapMinutes_ge slotsToAdd_def floor_gapMinutes
      add_slots_part0_closed)

lemma busy_loop_part0_gen:
  "m \<noteq> 0 \<Longrightarrow> busy_loop_part0 m bs p fs = Some (gen_loop (pk_part0 m) bs p fs)"
proof (induction bs arbitrary: p fs)
  case Nil
  then show ?case by simp
next
  case (Cons b bs)
  then show ?case
    by (simp add: fill_gap_part0_closed Let_def split: prod.splits) (simp add: pk_part0_def)
qed

lemma findFreeSlots_part0_gen:
  "m \<noteq> 0 \<Longrightarrow> findFreeSlots_part0 busy ds de m = Some (gen_find (pk_part0 m) busy ds de)"
  by (simp add: findFreeSlots_part0_def gen_find_def busy_loop_part0_gen fill_gap_part0_closed
      split: prod.splits)

lemma fill_gap_part1_pk:
  "0 < m \<Longrightarrow> fill_gap_part1 m l p fs = Some (snd (pk_part1 m p l), fs @ fst (pk_part1 m p l))"
  by (simp add: fill_gap_part1_closed pk_part1_def)

lemma busy_loop_part1_gen:
  "0 < m \<Longrightarrow> busy_loop_part1 m bs p fs = Some (gen_loop (pk_part1 m) bs p fs)"
proof (induction bs arbitrary: p fs)
  case Nil
  then show ?case by simp
next
  case (Cons b bs)
  then show ?case
    by (simp add: fill_gap_part1_pk Let_def split: prod.splits)
qed

lemma findFreeSlots_part1_gen:
  "0 < m \<Longrightarrow> findFreeSlots_part1 busy ds de m = Some (gen_find (pk_part1 m) busy ds de)"
  by (simp add: findFreeSlots_part1_def gen_find_def busy_loop_part1_gen fill_gap_part1_pk
      split: prod.splits)

lemma slots_from_bounds:
  assumes "0 < m" "s \<in> set (slots_from p m k)"
  shows "p \<le> start_t s \<and> end_t s \<le> p + int k * (m * 60000) \<and> end_t s - start_t s = m * 60000"
proof -
  from assms(2) obtain i where i: "i < k" and s: "s = slot_at (p + int i * (m * 60000)) m"
    by (auto simp: slots_from_def)
  from assms(1) have L: "0 < m * 60000" by simp
  from i have "int (Suc i) * (m * 60000) \<le> int k * (m * 60000)"
    using L by (intro mult_right_mono) auto
  moreover have "0 \<le> int i * (m * 60000)" using L by simp
  ultimately show ?thesis using s by (simp add: slot_at_def algebra_simps)
qed

lemma div_mult_le_gap: "0 < (L::int) \<Longrightarrow> 0 \<le> g \<Longrightarrow> int (nat (g div L)) * L \<le> g"
proof -
  assume L: "0 < L" and g: "0 \<le> g"
  then have "0 \<le> g div L" by (simp add: pos_imp_zdiv_nonneg_iff)
  then have "int (nat (g div L)) * L = g div L * L" by simp
  also have "\<dots> \<le> g" using div_mult_mod_eq[of g L] pos_mod_sign[OF L, of g] by linarith
  finally show ?thesis .
qed

lemma good_pk_index: "good_packer m (pk_index m)"
  by (auto simp: good_packer_def pk_index_def slot_at_def)

lemma good_pk_part0:
  assumes "0 < m"
  shows "good_packer m (pk_part0 m)"
  unfolding good_packer_def
proof (intro allI conjI ballI)
  fix p l
  show "p \<le> snd (pk_part0 m p l)" by (simp add: pk_part0_def)
next
  fix p l s
  assume s: "s \<in> set (fst (pk_part0 m p l))"
  let ?k = "nat ((l - p) div (m * 60000))"
  from s have pl: "p < l" and s': "s \<in> set (slots_from p m ?k)"
    by (auto simp: pk_part0_def mult.commute split: if_splits)
  note b = slots_from_bounds[OF assms s']
  from b show "p \<le> start_t s" by simp
  from b show "end_t s - start_t s = m * 60000" by simp
  from pl assms have "int ?k * (m * 60000) \<le> l - p" by (intro div_mult_le_gap) auto
  with b show "end_t s \<le> l" by simp
qed

lemma good_pk_part1:
  assumes "0 < m"
  shows "good_packer m (pk_part1 m)"
  unfolding good_packer_def
proof (intro allI conjI ballI)
  fix p l
  from assms show "p \<le> snd (pk_part1 m p l)" by (simp add: pk_part1_def)
next
  fix p l s
  assume s: "s \<in> set (fst (pk_part1 m p l))"
  let ?k = "nat ((l - p) div (m * 60000))"
  from s have s': "s \<in> set (slots_from p m ?k)" by (simp add: pk_part1_def)
  note b = slots_from_bounds[OF assms s']
  from b show "p \<le> start_t s" by simp
  from b show "end_t s - start_t s = m * 60000" by simp
  show "end_t s \<le> l"
  proof (cases "0 \<le> l - p")
    case True
    with assms have "int ?k * (m * 60000) \<le> l - p" by (intro div_mult_le_gap) auto
    with b show ?thesis by simp
  next
    case False
    with assms have "(l - p) div (m * 60000) < 0" by (simp add: pos_imp_zdiv_neg_iff)
    then have "?k = 0" by simp
    with s' show ?thesis by (simp add: slots_from_0)
  qed
qed

lemma gen_loop_invariant:
  assumes "good_packer m pk"
  shows "sorted (map start_t bs) \<Longrightarrow> gen_loop pk bs p fs = (p', fs') \<Longrightarrow>
    p \<le> p' \<and> (\<forall>b \<in> set bs. end_t b \<le> p') \<and>
    (\<exists>new. fs' = fs @ new \<and>
       (\<forall>s \<in> set new. p \<le> start_t s \<and> end_t s - start_t s = m * 60000 \<and>
          (\<exists>b \<in> set bs. end_t s \<le> start_t b) \<and>
          (\<forall>b \<in> set bs. end_t s \<le> start_t b \<or> end_t b \<le> start_t s)))"
proof (induction bs arbitrary: p fs)
  case Nil
  then show ?case by simp
next
  case (Cons b bs)
  obtain new p1 where pk: "pk p (start_t b) = (new, p1)" by (cases "pk p (start_t b)")
  define p2 where "p2 = (if p1 < end_t b then end_t b else p1)"
  from Cons.prems(2) pk have loop: "gen_loop pk bs p2 (fs @ new) = (p', fs')"
    by (simp add: p2_def)
  from Cons.prems(1) have srt: "sorted (map start_t bs)" and le: "\<forall>c \<in> set bs. start_t b \<le> start_t c"
    by auto
  from assms pk have g1: "p \<le> p1"
    and g2: "\<forall>s \<in> set new. p \<le> start_t s \<and> end_t s \<le> start_t b \<and> end_t s - start_t s = m * 60000"
  proof -
    from assms have "p \<le> snd (pk p (start_t b))" unfolding good_packer_def by blast
    with pk show "p \<le> p1" by simp
    from assms have "\<forall>s \<in> set (fst (pk p (start_t b))). p \<le> start_t s \<and> end_t s \<le> start_t b \<and> end_t s - start_t s = m * 60000"
      unfolding good_packer_def by blast
    with pk show "\<forall>s \<in> set new. p \<le> start_t s \<and> end_t s \<le> start_t b \<and> end_t s - start_t s = m * 60000"
      by (simp only: fst_conv)
  qed
  have p2: "p \<le> p2" "end_t b \<le> p2" using g1 by (auto simp: p2_def)
  from Cons.IH[OF srt loop] obtain new2 where
    i1: "p2 \<le> p'" and i2: "\<forall>c \<in> set bs. end_t c \<le> p'" and i3: "fs' = (fs @ new) @ new2"
    and i4: "\<forall>s \<in> set new2. p2 \<le> start_t s \<and> end_t s - start_t s = m * 60000 \<and>
          (\<exists>c \<in> set bs. end_t s \<le> start_t c) \<and>
          (\<forall>c \<in> set bs. end_t s \<le> start_t c \<or> end_t c \<le> start_t s)"
    by blast
  have "\<forall>s \<in> set (new @ new2). p \<le> start_t s \<and> end_t s - start_t s = m * 60000 \<and>
          (\<exists>c \<in> set (b # bs). end_t s \<le> start_t c) \<and>
          (\<forall>c \<in> set (b # bs). end_t s \<le> start_t c \<or> end_t c \<le> start_t s)"
  proof
    fix s assume "s \<in> set (new @ new2)"
    then consider "s \<in> set new" | "s \<in> set new2" by auto
    then show "p \<le> start_t s \<and> end_t s - start_t s = m * 60000 \<and>
          (\<exists>c \<in> set (b # bs). end_t s \<le> start_t c) \<and>
          (\<forall>c \<in> set (b # bs). end_t s \<le> start_t c \<or> end_t c \<le> start_t s)"
    proof cases
      case 1
      with g2 le show ?thesis by fastforce
    next
      case 2
      with i4 p2 show ?thesis by fastforce
    qed
  qed
  moreover have "fs' = fs @ (new @ new2)" using i3 by simp
  moreover have "p \<le> p'" using i1 p2 by simp
  moreover have "\<forall>c \<in> set (b # bs). end_t c \<le> p'" using i1 i2 p2 by simp
  ultimately show ?case by blast
qed


lemma sortedBusySlots_sorted: "sorted (map start_t (sortedBusySlots busy ds de))"
  by (simp add: sortedBusySlots_def)

lemma sortedBusySlots_set:
  "set (sortedBusySlots busy ds de) = {b \<in> set busy. start_t b < de \<and> end_t b > ds}"
  by (auto simp: sortedBusySlots_def)

lemma gen_find_safe:
  assumes good: "good_packer m pk" and s: "s \<in> set (gen_find pk busy ds de)"
  shows "slot_ok m busy ds de s"
proof -
  let ?bs = "sortedBusySlots busy ds de"
  obtain p' fs' where loop: "gen_loop pk ?bs ds [] = (p', fs')" by (cases "gen_loop pk ?bs ds []")
  from gen_loop_invariant[OF good sortedBusySlots_sorted loop]
  have i1: "ds \<le> p'" and i2: "\<forall>b \<in> set ?bs. end_t b \<le> p'"
    and i3: "\<forall>s \<in> set fs'. ds \<le> start_t s \<and> end_t s - start_t s = m * 60000 \<and>
          (\<exists>b \<in> set ?bs. end_t s \<le> start_t b) \<and>
          (\<forall>b \<in> set ?bs. end_t s \<le> start_t b \<or> end_t b \<le> start_t s)"
    by auto
  from good have i4: "\<forall>s \<in> set (fst (pk p' de)). p' \<le> start_t s \<and> end_t s \<le> de \<and> end_t s - start_t s = m * 60000"
    unfolding good_packer_def by blast
  from s loop consider "s \<in> set fs'" | "s \<in> set (fst (pk p' de))"
    by (auto simp: gen_find_def)
  then have main: "ds \<le> start_t s \<and> end_t s \<le> de \<and> end_t s - start_t s = m * 60000 \<and>
     (\<forall>b \<in> set ?bs. end_t s \<le> start_t b \<or> end_t b \<le> start_t s)"
  proof cases
    case 1
    with i3 obtain b where "b \<in> set ?bs" "end_t s \<le> start_t b" by blast
    then have "end_t s \<le> de" by (auto simp: sortedBusySlots_set)
    with 1 i3 show ?thesis by blast
  next
    case 2
    with i4 i1 i2 show ?thesis by fastforce
  qed
  have "\<not> overlaps s b" if b: "b \<in> set busy" for b
  proof (cases "b \<in> set ?bs")
    case True
    with main show ?thesis by (auto simp: overlaps_def)
  next
    case False
    with b have "de \<le> start_t b \<or> end_t b \<le> ds" by (auto simp: sortedBusySlots_set)
    with main show ?thesis by (auto simp: overlaps_def)
  qed
  with main show ?thesis by (simp add: slot_ok_def)
qed

subsection \<open>A worked day\<close>

text \<open>
  The window from 09:00 to 17:00 with the busy intervals of \<^const>\<open>busy_example\<close> and
  meetings of 60 minutes: index.ts returns the first hour of each of the two gaps,
  part_000 and part_001 return every hour of them.
\<close>

lemma sortedBusySlots_example:
  "sortedBusySlots busy_example 32400000 61200000 =
     [\<lparr>start_t = 36000000, end_t = 39600000\<rparr>,
      \<lparr>start_t = 37800000, end_t = 43200000\<rparr>,
      \<lparr>start_t = 43200000, end_t = 46800000\<rparr>]"
  by (simp add: sortedBusySlots_def busy_example_def)

lemma findFreeSlots_index_example:
  "findFreeSlots_index busy_example 32400000 61200000 60 =
     [\<lparr>start_t = 32400000, end_t = 36000000\<rparr>, \<lparr>start_t = 46800000, end_t = 50400000\<rparr>]"
  by (simp add: findFreeSlots_index_def sortedBusySlots_example gapMinutes_def slot_at_def)

lemma findFreeSlots_part0_example:
  "findFreeSlots_part0 busy_example 32400000 61200000 60 =
     Some [\<lparr>start_t = 32400000, end_t = 36000000\<rparr>, \<lparr>start_t = 46800000, end_t = 50400000\<rparr>,
           \<lparr>start_t = 50400000, end_t = 54000000\<rparr>, \<lparr>start_t = 54000000, end_t = 57600000\<rparr>,
           \<lparr>start_t = 57600000, end_t = 61200000\<rparr>]"
  by (simp add: findFreeSlots_part0_def sortedBusySlots_example fill_gap_part0_def gapMinutes_def
      slotsToAdd_def slot_at_def add_slots_part0.simps)

lemma findFreeSlots_part1_example:
  "findFreeSlots_part1 busy_example 32400000 61200000 60 =
     Some [\<lparr>start_t = 32400000, end_t = 36000000\<rparr>, \<lparr>start_t = 46800000, end_t = 50400000\<rparr>,
           \<lparr>start_t = 50400000, end_t = 54000000\<rparr>, \<lparr>start_t = 54000000, end_t = 57600000\<rparr>,
           \<lparr>start_t = 57600000, end_t = 61200000\<rparr>]"
  by (simp add: findFreeSlots_part1_def sortedBusySlots_example slot_at_def fill_gap_part1.simps)

text \<open>
  The scenario of the specification: 09:00 to 17:00, meetings of 60 minutes, one busy
  interval from 10:00 to 11:00: seven slots in part_000 and part_001, two in index.ts.
\<close>

lemma findFreeSlots_scenario:
  "findFreeSlots_part0 [\<lparr>start_t = 36000000, end_t = 39600000\<rparr>] 32400000 61200000 60 =
     Some [\<lparr>start_t = 32400000, end_t = 36000000\<rparr>, \<lparr>start_t = 39600000, end_t = 43200000\<rparr>,
           \<lparr>start_t = 43200000, end_t = 46800000\<rparr>, \<lparr>start_t = 46800000, end_t = 50400000\<rparr>,
           \<lparr>start_t = 50400000, end_t = 54000000\<rparr>, \<lparr>start_t = 54000000, end_t = 57600000\<rparr>,
           \<lparr>start_t = 57600000, end_t = 61200000\<rparr>]"
  "findFreeSlots_part1 [\<lparr>start_t = 36000000, end_t = 39600000\<rparr>] 32400000 61200000 60 =
     Some [\<lparr>start_t = 32400000, end_t = 36000000\<rparr>, \<lparr>start_t = 39600000, end_t = 43200000\<rparr>,
           \<lparr>start_t = 43200000, end_t = 46800000\<rparr>, \<lparr>start_t = 46800000, end_t = 50400000\<rparr>,
           \<lparr>start_t = 50400000, end_t = 54000000\<rparr>, \<lparr>start_t = 54000000, end_t = 57600000\<rparr>,
           \<lparr>start_t = 57600000, end_t = 61200000\<rparr>]"
  "findFreeSlots_index [\<lparr>start_t = 36000000, end_t = 39600000\<rparr>] 32400000 61200000 60 =
     [\<lparr>start_t = 32400000, end_t = 36000000\<rparr>, \<lparr>start_t = 39600000, end_t = 43200000\<rparr>]"
  by code_simp+

subsection \<open>Slots avoid the busy intervals and stay in the window\<close>

text \<open>
  C3. For every list of busy intervals (overlapping, adjacent, in any order), every
  meeting length above zero and every working window, each slot that \<^verbatim>\<open>findFreeSlots\<close>
  returns lies within the window from \<open>dayStart\<close> to \<open>dayEnd\<close>, lasts exactly the meeting
  length, and overlaps no busy interval of the list at all (so none of those that
  intersect the window). This holds in the three files; the routines of part_000 and
  part_001 also return. The window need not be non-empty: an empty one gets no slot.
\<close>

theorem findFreeSlots_slots_ok:
  assumes "0 < m"
  shows "(\<forall>s \<in> set (findFreeSlots_index busySlots dayStart dayEnd m).
            slot_ok m busySlots dayStart dayEnd s) \<and>
         (\<exists>freeSlots. findFreeSlots_part0 busySlots dayStart dayEnd m = Some freeSlots \<and>
            (\<forall>s \<in> set freeSlots. slot_ok m busySlots dayStart dayEnd s)) \<and>
         (\<exists>freeSlots. findFreeSlots_part1 busySlots dayStart dayEnd m = Some freeSlots \<and>
            (\<forall>s \<in> set freeSlots. slot_ok m busySlots dayStart dayEnd s))"
proof (intro conjI)
  show "\<forall>s \<in> set (findFreeSlots_index busySlots dayStart dayEnd m).
            slot_ok m busySlots dayStart dayEnd s"
    using gen_find_safe[OF good_pk_index] by (simp add: findFreeSlots_index_gen)
  from assms have "m \<noteq> 0" by simp
  then show "\<exists>freeSlots. findFreeSlots_part0 busySlots dayStart dayEnd m = Some freeSlots \<and>
            (\<forall>s \<in> set freeSlots. slot_ok m busySlots dayStart dayEnd s)"
    using gen_find_safe[OF good_pk_part0[OF assms]] by (simp add: findFreeSlots_part0_gen)
  show "\<exists>freeSlots. findFreeSlots_part1 busySlots dayStart dayEnd m = Some freeSlots \<and>
            (\<forall>s \<in> set freeSlots. slot_ok m busySlots dayStart dayEnd s)"
    using gen_find_safe[OF good_pk_part1[OF assms]] assms by (simp add: findFreeSlots_part1_gen)
qed


text \<open>The theorem at the worked day.\<close>

theorem findFreeSlots_slots_ok_witness:
  "(0::int) < 60 \<and>
   findFreeSlots_index busy_example 32400000 61200000 60 =
     [\<lparr>start_t = 32400000, end_t = 36000000\<rparr>, \<lparr>start_t = 46800000, end_t = 50400000\<rparr>] \<and>
   slot_ok 60 busy_example 32400000 61200000 \<lparr>start_t = 32400000, end_t = 36000000\<rparr> \<and>
   slot_ok 60 busy_example 32400000 61200000 \<lparr>start_t = 46800000, end_t = 50400000\<rparr> \<and>
   findFreeSlots_part1 busy_example 32400000 61200000 60 =
     Some [\<lparr>start_t = 32400000, end_t = 36000000\<rparr>, \<lparr>start_t = 46800000, end_t = 50400000\<rparr>,
           \<lparr>start_t = 50400000, end_t = 54000000\<rparr>, \<lparr>start_t = 54000000, end_t = 57600000\<rparr>,
           \<lparr>start_t = 57600000, end_t = 61200000\<rparr>] \<and>
   slot_ok 60 busy_example 32400000 61200000 \<lparr>start_t = 57600000, end_t = 61200000\<rparr>"
  using findFreeSlots_slots_ok[of 60 busy_example 32400000 61200000]
  by (simp add: findFreeSlots_index_example findFreeSlots_part0_example findFreeSlots_part1_example)

subsection \<open>How many slots a gap gets\<close>

lemma gen_loop_packing:
  assumes "\<And>p l. snd (pk p l) = p"
  shows "(case gen_loop pk bs p fs of (p', fs') \<Rightarrow> fs' @ fst (pk p' de)) =
         fs @ spec_packing (\<lambda>c l. fst (pk c l)) bs p de"
proof (induction bs arbitrary: p fs)
  case Nil
  show ?case by simp
next
  case (Cons b bs)
  obtain new p1 where pk: "pk p (start_t b) = (new, p1)" by (cases "pk p (start_t b)")
  with assms[of p "start_t b"] have p1: "p1 = p" by simp
  have mx: "(if p < end_t b then end_t b else p) = max p (end_t b)" by (simp add: max_def)
  from pk p1 show ?case by (simp add: Cons.IH mx)
qed

lemma gen_find_packing:
  assumes "\<And>p l. snd (pk p l) = p"
  shows "gen_find pk busy ds de = spec_packing (\<lambda>c l. fst (pk c l)) (sortedBusySlots busy ds de) ds de"
  using gen_loop_packing[where pk = pk and bs = "sortedBusySlots busy ds de" and p = ds and fs = "[]" and de = de, OF assms]
  by (simp add: gen_find_def)

lemma gap_div_le0: "0 < (L::int) \<Longrightarrow> \<not> L \<le> g \<Longrightarrow> g div L \<le> 0"
  using pos_imp_zdiv_pos_iff[of L g] by linarith

lemma pk_part0_spec: "0 < m \<Longrightarrow> fst (pk_part0 m c l) = spec_gap_slots m c l"
  by (auto simp: pk_part0_def spec_gap_slots_def gapMinutes_ge floor_gapMinutes)

lemma pk_part1_spec:
  assumes "0 < m"
  shows "fst (pk_part1 m c l) = spec_gap_slots m c l"
proof (cases "m * 60000 \<le> l - c")
  case True
  then show ?thesis
    by (simp add: pk_part1_def spec_gap_slots_def gapMinutes_ge floor_gapMinutes mult.commute)
next
  case False
  with assms have "(l - c) div (m * 60000) \<le> 0" by (intro gap_div_le0) auto
  with False show ?thesis
    by (simp add: pk_part1_def spec_gap_slots_def gapMinutes_ge slots_from_0)
qed

lemma pk_index_spec:
  assumes "0 < m"
  shows "fst (pk_index m c l) = take 1 (spec_gap_slots m c l)"
proof (cases "m * 60000 \<le> l - c")
  case True
  with assms have "0 < (l - c) div (60000 * m)"
    using pos_imp_zdiv_pos_iff[of "60000 * m" "l - c"] by (simp add: mult.commute)
  then obtain k where "nat ((l - c) div (60000 * m)) = Suc k"
    by (metis Suc_pred' zero_less_nat_eq)
  with True assms show ?thesis
    by (simp add: pk_index_def spec_gap_slots_def gapMinutes_ge floor_gapMinutes slots_from_Suc)
next
  case False
  then show ?thesis by (simp add: pk_index_def spec_gap_slots_def gapMinutes_ge)
qed

lemma gen_loop_part1_packing:
  assumes "0 < m"
  shows "\<forall>b \<in> set bs. start_t b \<le> end_t b \<Longrightarrow>
    (case gen_loop (pk_part1 m) bs p fs of (p', fs') \<Rightarrow> fs' @ fst (pk_part1 m p' de)) =
    fs @ spec_packing (spec_gap_slots m) bs p de"
proof (induction bs arbitrary: p fs)
  case Nil
  show ?case by (simp add: pk_part1_spec[OF assms])
next
  case (Cons b bs)
  let ?k = "nat ((start_t b - p) div (m * 60000))"
  let ?p1 = "p + int ?k * (m * 60000)"
  from Cons.prems have wf: "start_t b \<le> end_t b" and rest: "\<forall>b \<in> set bs. start_t b \<le> end_t b"
    by auto
  from assms have L: "0 < m * 60000" by simp
  define q where "q = ?p1"
  have q: "(if q < end_t b then end_t b else q) = max p (end_t b)"
  proof (cases "m * 60000 \<le> start_t b - p")
    case True
    then have "0 \<le> start_t b - p" using L by linarith
    from div_mult_le_gap[OF L this] have "q \<le> start_t b" by (simp add: q_def)
    moreover have "0 \<le> int ?k * (m * 60000)" using L by simp
    then have "p \<le> q" by (simp add: q_def)
    ultimately show ?thesis using wf by (simp add: max_def)
  next
    case False
    with L have "(start_t b - p) div (m * 60000) \<le> 0" by (intro gap_div_le0) auto
    then have "?k = 0" by simp
    then have "q = p" by (simp add: q_def)
    then show ?thesis by (simp add: max_def)
  qed
  then have p2: "(if ?p1 < end_t b then end_t b else ?p1) = max p (end_t b)"
    by (simp only: q_def)
  have pk: "pk_part1 m p (start_t b) = (spec_gap_slots m p (start_t b), ?p1)"
    using pk_part1_spec[OF assms, of p "start_t b"] by (simp add: pk_part1_def)
  show ?case
    by (simp only: gen_loop.simps pk prod.case p2 Cons.IH[OF rest] spec_packing.simps append_assoc)
qed

lemma slots_from_numeral:
  "slots_from p m (numeral k) = slot_at p m # slots_from (p + m * 60000) m (pred_numeral k)"
  by (simp add: numeral_eq_Suc slots_from_Suc)

text \<open>
  C2, as the claim states it, fails on index.ts: for a free day from 09:00 to 17:00 and a
  meeting of 60 minutes the formula of the claim gives 8 slots, and \<^verbatim>\<open>findFreeSlots\<close> of
  index.ts returns one, from 09:00 to 10:00.
\<close>

theorem findFreeSlots_index_one_slot:
  "sortedBusySlots [] 32400000 61200000 = [] \<and>
   nat \<lfloor>gapMinutes 32400000 61200000 / of_int 60\<rfloor> = 8 \<and>
   findFreeSlots_index [] 32400000 61200000 60 = [\<lparr>start_t = 32400000, end_t = 36000000\<rparr>]"
  by (simp add: sortedBusySlots_def findFreeSlots_index_def gapMinutes_def slot_at_def)

text \<open>
  C2, amended. For a meeting length above zero, \<^verbatim>\<open>findFreeSlots\<close> of part_000 returns
  exactly the packing of the specification: every gap of at least the meeting length
  between the cursor and the next busy interval, and between the last cursor and
  \<open>dayEnd\<close>, gets floor(gapMinutes / meetingLength) back-to-back slots that start at the
  cursor. \<^verbatim>\<open>findFreeSlots\<close> of part_001 returns the same when no busy interval ends before
  it starts. So a day whose filtered busy list is empty gets
  floor((dayEnd - dayStart) / meetingLength) slots, back to back, the first at
  \<open>dayStart\<close>, in both files. In index.ts every such gap gets one slot only, the first of
  these.
\<close>

theorem findFreeSlots_packs_gaps:
  assumes "0 < m"
  shows "findFreeSlots_part0 busySlots dayStart dayEnd m =
           Some (spec_packing (spec_gap_slots m) (sortedBusySlots busySlots dayStart dayEnd) dayStart dayEnd) \<and>
         ((\<forall>b \<in> set busySlots. start_t b \<le> end_t b) \<longrightarrow>
          findFreeSlots_part1 busySlots dayStart dayEnd m =
            Some (spec_packing (spec_gap_slots m) (sortedBusySlots busySlots dayStart dayEnd) dayStart dayEnd)) \<and>
         findFreeSlots_index busySlots dayStart dayEnd m =
           spec_packing (\<lambda>cursor limit. take 1 (spec_gap_slots m cursor limit))
             (sortedBusySlots busySlots dayStart dayEnd) dayStart dayEnd \<and>
         (sortedBusySlots busySlots dayStart dayEnd = [] \<longrightarrow>
          findFreeSlots_part0 busySlots dayStart dayEnd m =
            Some (slots_from dayStart m (nat \<lfloor>gapMinutes dayStart dayEnd / of_int m\<rfloor>)) \<and>
          findFreeSlots_part1 busySlots dayStart dayEnd m =
            Some (slots_from dayStart m (nat \<lfloor>gapMinutes dayStart dayEnd / of_int m\<rfloor>)))"
proof (intro conjI impI)
  let ?bs = "sortedBusySlots busySlots dayStart dayEnd"
  from assms have m0: "m \<noteq> 0" by simp
  have p0: "findFreeSlots_part0 busySlots dayStart dayEnd m =
           Some (spec_packing (spec_gap_slots m) ?bs dayStart dayEnd)"
    using gen_find_packing[where pk = "pk_part0 m" and busy = busySlots and ds = dayStart and de = dayEnd]
    by (simp add: findFreeSlots_part0_gen[OF m0] pk_part0_spec[OF assms]) (simp add: pk_part0_def)
  show "findFreeSlots_part0 busySlots dayStart dayEnd m =
           Some (spec_packing (spec_gap_slots m) ?bs dayStart dayEnd)" by (rule p0)
  have p1: "findFreeSlots_part1 busySlots dayStart dayEnd m =
            Some (spec_packing (spec_gap_slots m) ?bs dayStart dayEnd)"
    if wf: "\<forall>b \<in> set ?bs. start_t b \<le> end_t b"
    using gen_loop_part1_packing[OF assms wf, where p = dayStart and fs = "[]" and de = dayEnd]
    by (simp add: findFreeSlots_part1_gen[OF assms] gen_find_def)
  show "findFreeSlots_part1 busySlots dayStart dayEnd m =
            Some (spec_packing (spec_gap_slots m) ?bs dayStart dayEnd)"
    if "\<forall>b \<in> set busySlots. start_t b \<le> end_t b"
    using that by (intro p1) (simp add: sortedBusySlots_set)
  show "findFreeSlots_index busySlots dayStart dayEnd m =
           spec_packing (\<lambda>cursor limit. take 1 (spec_gap_slots m cursor limit)) ?bs dayStart dayEnd"
    using gen_find_packing[where pk = "pk_index m" and busy = busySlots and ds = dayStart and de = dayEnd]
    by (simp add: findFreeSlots_index_gen pk_index_spec[OF assms]) (simp add: pk_index_def)
  have empty: "spec_gap_slots m dayStart dayEnd =
      slots_from dayStart m (nat \<lfloor>gapMinutes dayStart dayEnd / of_int m\<rfloor>)"
  proof (cases "m * 60000 \<le> dayEnd - dayStart")
    case True
    then show ?thesis by (simp add: spec_gap_slots_def gapMinutes_ge)
  next
    case False
    with assms have "(dayEnd - dayStart) div (60000 * m) \<le> 0" by (intro gap_div_le0) auto
    with False show ?thesis
      by (simp add: spec_gap_slots_def gapMinutes_ge floor_gapMinutes slots_from_0)
  qed
  show "findFreeSlots_part0 busySlots dayStart dayEnd m =
            Some (slots_from dayStart m (nat \<lfloor>gapMinutes dayStart dayEnd / of_int m\<rfloor>))"
    if "?bs = []"
    using p0 that empty by simp
  show "findFreeSlots_part1 busySlots dayStart dayEnd m =
            Some (slots_from dayStart m (nat \<lfloor>gapMinutes dayStart dayEnd / of_int m\<rfloor>))"
    if "?bs = []"
    using p1 that empty by simp
qed

text \<open>
  The theorem at the day of 90-minute meetings with no busy interval (five slots, the
  last ending at 16:30, half an hour unused) and at the worked day.
\<close>

theorem findFreeSlots_packs_gaps_witness:
  "(0::int) < 90 \<and> sortedBusySlots [] 32400000 61200000 = [] \<and>
   findFreeSlots_part0 [] 32400000 61200000 90 =
     Some [\<lparr>start_t = 32400000, end_t = 37800000\<rparr>, \<lparr>start_t = 37800000, end_t = 43200000\<rparr>,
           \<lparr>start_t = 43200000, end_t = 48600000\<rparr>, \<lparr>start_t = 48600000, end_t = 54000000\<rparr>,
           \<lparr>start_t = 54000000, end_t = 59400000\<rparr>] \<and>
   findFreeSlots_part1 [] 32400000 61200000 90 =
     Some [\<lparr>start_t = 32400000, end_t = 37800000\<rparr>, \<lparr>start_t = 37800000, end_t = 43200000\<rparr>,
           \<lparr>start_t = 43200000, end_t = 48600000\<rparr>, \<lparr>start_t = 48600000, end_t = 54000000\<rparr>,
           \<lparr>start_t = 54000000, end_t = 59400000\<rparr>] \<and>
   list_all (\<lambda>b. start_t b \<le> end_t b) busy_example \<and>
   findFreeSlots_part1 busy_example 32400000 61200000 60 =
     Some [\<lparr>start_t = 32400000, end_t = 36000000\<rparr>, \<lparr>start_t = 46800000, end_t = 50400000\<rparr>,
           \<lparr>start_t = 50400000, end_t = 54000000\<rparr>, \<lparr>start_t = 54000000, end_t = 57600000\<rparr>,
           \<lparr>start_t = 57600000, end_t = 61200000\<rparr>] \<and>
   findFreeSlots_index busy_example 32400000 61200000 60 =
     [\<lparr>start_t = 32400000, end_t = 36000000\<rparr>, \<lparr>start_t = 46800000, end_t = 50400000\<rparr>]"
proof -
  have e: "sortedBusySlots [] 32400000 61200000 = []" by (simp add: sortedBusySlots_def)
  have g: "\<lfloor>gapMinutes 32400000 61200000 / 90\<rfloor> = 5" using floor_gapMinutes[of 32400000 61200000 90] by simp
  have wf: "\<forall>b \<in> set busy_example. start_t b \<le> end_t b" by (simp add: busy_example_def)
  have sp: "spec_packing (spec_gap_slots 60) (sortedBusySlots busy_example 32400000 61200000) 32400000 61200000 =
     [\<lparr>start_t = 32400000, end_t = 36000000\<rparr>, \<lparr>start_t = 46800000, end_t = 50400000\<rparr>,
           \<lparr>start_t = 50400000, end_t = 54000000\<rparr>, \<lparr>start_t = 54000000, end_t = 57600000\<rparr>,
           \<lparr>start_t = 57600000, end_t = 61200000\<rparr>]"
    by (simp add: sortedBusySlots_example spec_gap_slots_def gapMinutes_def slots_from_numeral slots_from_Suc
        slots_from_0 slot_at_def)
  have sp1: "spec_packing (\<lambda>cursor limit. take 1 (spec_gap_slots 60 cursor limit))
       (sortedBusySlots busy_example 32400000 61200000) 32400000 61200000 =
     [\<lparr>start_t = 32400000, end_t = 36000000\<rparr>, \<lparr>start_t = 46800000, end_t = 50400000\<rparr>]"
    by (simp add: sortedBusySlots_example spec_gap_slots_def gapMinutes_def slots_from_numeral slots_from_Suc
        slots_from_0 slot_at_def)
  have s5: "slots_from 32400000 90 5 =
     [\<lparr>start_t = 32400000, end_t = 37800000\<rparr>, \<lparr>start_t = 37800000, end_t = 43200000\<rparr>,
      \<lparr>start_t = 43200000, end_t = 48600000\<rparr>, \<lparr>start_t = 48600000, end_t = 54000000\<rparr>,
      \<lparr>start_t = 54000000, end_t = 59400000\<rparr>]"
    by (simp add: slots_from_numeral slots_from_Suc slots_from_0 slot_at_def)
  have m90: "(0::int) < 90" and m60: "(0::int) < 60" by simp_all
  from findFreeSlots_packs_gaps[OF m90, of "[]" 32400000 61200000] e
  have "findFreeSlots_part0 [] 32400000 61200000 90 =
          Some (slots_from 32400000 90 (nat \<lfloor>gapMinutes 32400000 61200000 / of_int 90\<rfloor>)) \<and>
        findFreeSlots_part1 [] 32400000 61200000 90 =
          Some (slots_from 32400000 90 (nat \<lfloor>gapMinutes 32400000 61200000 / of_int 90\<rfloor>))"
    by blast
  then have a: "findFreeSlots_part0 [] 32400000 61200000 90 = Some (slots_from 32400000 90 5)"
    and b: "findFreeSlots_part1 [] 32400000 61200000 90 = Some (slots_from 32400000 90 5)"
    by (simp_all add: g)
  from findFreeSlots_packs_gaps[OF m60, of busy_example 32400000 61200000] wf
  have c: "findFreeSlots_part1 busy_example 32400000 61200000 60 =
      Some (spec_packing (spec_gap_slots 60) (sortedBusySlots busy_example 32400000 61200000) 32400000 61200000)"
    and d: "findFreeSlots_index busy_example 32400000 61200000 60 =
      spec_packing (\<lambda>cursor limit. take 1 (spec_gap_slots 60 cursor limit))
        (sortedBusySlots busy_example 32400000 61200000) 32400000 61200000"
    by blast+
  from wf have w: "list_all (\<lambda>b. start_t b \<le> end_t b) busy_example" by (simp add: list_all_iff)
  show ?thesis
    by (simp only: a b c d s5 sp sp1 e w) simp
qed

subsection \<open>Meeting lengths of zero and below\<close>













section \<open>Properties of handleMeetingSuggestion\<close>

subsection \<open>A field set to zero is a field left out\<close>

lemma num_or_zero: "num_or (Some 0) d = num_or None d"
  by (simp add: num_or_def)

lemma defaults_zero:
  "defaults (a\<lparr>meetingLengthMinutes := Some 0\<rparr>) = defaults (a\<lparr>meetingLengthMinutes := None\<rparr>)"
  "defaults (a\<lparr>slotsPerDay := Some 0\<rparr>) = defaults (a\<lparr>slotsPerDay := None\<rparr>)"
  "defaults (a\<lparr>daysToSearch := Some 0\<rparr>) = defaults (a\<lparr>daysToSearch := None\<rparr>)"
  "defaults (a\<lparr>maxDaysToLookAhead := Some 0\<rparr>) = defaults (a\<lparr>maxDaysToLookAhead := None\<rparr>)"
  by (simp_all add: defaults_def num_or_zero)

text \<open>
  C10. A request field set to 0 cannot be told from a field left out: for
  \<^verbatim>\<open>slotsPerDay\<close>, \<^verbatim>\<open>daysToSearch\<close>, \<^verbatim>\<open>maxDaysToLookAhead\<close> and \<^verbatim>\<open>meetingLengthMinutes\<close>, the
  handler's whole answer (the query it sends and its result) for the request with the
  field equal to 0 is its answer for the same request without the field, so 0 behaves
  as the default 1, 3, 30 and 60. This holds in the three files.
\<close>

theorem zero_field_is_absent:
  "handle_index e fetch (a\<lparr>slotsPerDay := Some 0\<rparr>) = handle_index e fetch (a\<lparr>slotsPerDay := None\<rparr>) \<and>
   handle_index e fetch (a\<lparr>daysToSearch := Some 0\<rparr>) = handle_index e fetch (a\<lparr>daysToSearch := None\<rparr>) \<and>
   handle_index e fetch (a\<lparr>maxDaysToLookAhead := Some 0\<rparr>) = handle_index e fetch (a\<lparr>maxDaysToLookAhead := None\<rparr>) \<and>
   handle_index e fetch (a\<lparr>meetingLengthMinutes := Some 0\<rparr>) = handle_index e fetch (a\<lparr>meetingLengthMinutes := None\<rparr>) \<and>
   handle_part0 e fetch (a\<lparr>slotsPerDay := Some 0\<rparr>) = handle_part0 e fetch (a\<lparr>slotsPerDay := None\<rparr>) \<and>
   handle_part0 e fetch (a\<lparr>daysToSearch := Some 0\<rparr>) = handle_part0 e fetch (a\<lparr>daysToSearch := None\<rparr>) \<and>
   handle_part0 e fetch (a\<lparr>maxDaysToLookAhead := Some 0\<rparr>) = handle_part0 e fetch (a\<lparr>maxDaysToLookAhead := None\<rparr>) \<and>
   handle_part0 e fetch (a\<lparr>meetingLengthMinutes := Some 0\<rparr>) = handle_part0 e fetch (a\<lparr>meetingLengthMinutes := None\<rparr>) \<and>
   handle_part1 e fetch (a\<lparr>slotsPerDay := Some 0\<rparr>) = handle_part1 e fetch (a\<lparr>slotsPerDay := None\<rparr>) \<and>
   handle_part1 e fetch (a\<lparr>daysToSearch := Some 0\<rparr>) = handle_part1 e fetch (a\<lparr>daysToSearch := None\<rparr>) \<and>
   handle_part1 e fetch (a\<lparr>maxDaysToLookAhead := Some 0\<rparr>) = handle_part1 e fetch (a\<lparr>maxDaysToLookAhead := None\<rparr>) \<and>
   handle_part1 e fetch (a\<lparr>meetingLengthMinutes := Some 0\<rparr>) = handle_part1 e fetch (a\<lparr>meetingLengthMinutes := None\<rparr>)"
  by (simp add: handle_index_def handle_part0_def handle_part1_def query_index_def query_part0_def
      query_part1_def startDate_index_def startDate_part0_def startDate_part1_def defaults_zero)

text \<open>
  The theorem at a request for Monday 2024-01-01 with \<^verbatim>\<open>slotsPerDay: 0\<close>: one slot a day, as
  by default.
\<close>

theorem zero_field_is_absent_witness:
  "handle_part1 env_utc free_calendar (no_args\<lparr>startDate := Some (DateOnly 19723), slotsPerDay := Some 0\<rparr>) =
     Some ([\<lparr>timeMin = 1704067200000, timeMax = 1706745599999,
             timeZone = Some ''America/Sao_Paulo'', items = [''primary'']\<rparr>],
           Content [\<lparr>start_t = 1704099600000, end_t = 1704103200000\<rparr>,
                    \<lparr>start_t = 1704186000000, end_t = 1704189600000\<rparr>,
                    \<lparr>start_t = 1704272400000, end_t = 1704276000000\<rparr>])"
proof -
  have "handle_part1 env_utc free_calendar (no_args\<lparr>startDate := Some (DateOnly 19723), slotsPerDay := None\<rparr>) =
     Some ([\<lparr>timeMin = 1704067200000, timeMax = 1706745599999,
             timeZone = Some ''America/Sao_Paulo'', items = [''primary'']\<rparr>],
           Content [\<lparr>start_t = 1704099600000, end_t = 1704103200000\<rparr>,
                    \<lparr>start_t = 1704186000000, end_t = 1704189600000\<rparr>,
                    \<lparr>start_t = 1704272400000, end_t = 1704276000000\<rparr>])"
    by code_simp
  with zero_field_is_absent[of env_utc free_calendar "no_args\<lparr>startDate := Some (DateOnly 19723)\<rparr>"]
  show ?thesis by simp
qed

subsection \<open>The answer depends on the clock only through the default start date\<close>





subsection \<open>What counts towards daysToSearch\<close>


lemma collect_part1_Nil: "collect_part1 n [] k acc = acc"
  by simp











subsection \<open>The end of the horizon\<close>

text \<open>
  C6. The claim holds in index.ts and part_000, whose \<^verbatim>\<open>endDate\<close> is the start date plus
  \<^verbatim>\<open>maxDaysToLookAhead\<close> days, and fails in part_001, whose \<^verbatim>\<open>endDate\<close> is the last millisecond
  of that day (\<^verbatim>\<open>.endOf("day")\<close>): its walk examines one day more. With a start on Monday
  2024-01-01 and \<^verbatim>\<open>maxDaysToLookAhead\<close> 1, the horizon ends at Tuesday 00:00; part_001
  returns a slot on Tuesday at 09:00, index.ts and part_000 return Monday's only.
\<close>

theorem walk_part1_examines_end_day:
  "startDate_part1 env_utc (no_args\<lparr>startDate := Some (DateOnly 19723), maxDaysToLookAhead := Some 1\<rparr>) =
     1704067200000 \<and>
   1704067200000 + 1 * DAY = 1704153600000 \<and>
   handle_part1 env_utc free_calendar
     (no_args\<lparr>startDate := Some (DateOnly 19723), maxDaysToLookAhead := Some 1\<rparr>) =
     Some ([\<lparr>timeMin = 1704067200000, timeMax = 1704239999999,
             timeZone = Some ''America/Sao_Paulo'', items = [''primary'']\<rparr>],
           Content [\<lparr>start_t = 1704099600000, end_t = 1704103200000\<rparr>,
                    \<lparr>start_t = 1704186000000, end_t = 1704189600000\<rparr>]) \<and>
   handle_index env_utc free_calendar
     (no_args\<lparr>startDate := Some (DateOnly 19723), maxDaysToLookAhead := Some 1\<rparr>) =
     Some ([\<lparr>timeMin = 1704067200000, timeMax = 1704153600000,
             timeZone = Some ''America/Sao_Paulo'', items = [''primary'']\<rparr>],
           Content [\<lparr>start_t = 1704099600000, end_t = 1704103200000\<rparr>]) \<and>
   handle_part0 env_utc free_calendar
     (no_args\<lparr>startDate := Some (DateOnly 19723), maxDaysToLookAhead := Some 1\<rparr>) =
     Some ([\<lparr>timeMin = 1704067200000, timeMax = 1704153600000,
             timeZone = None, items = [''primary'']\<rparr>],
           Content [\<lparr>start_t = 1704099600000, end_t = 1704103200000\<rparr>])"
  by code_simp

subsection \<open>Weekends and bank holidays\<close>

text \<open>In part_001 a Saturday, a Sunday or a listed date of the request's zone is skipped.\<close>

lemma day_step_part1_skips:
  assumes "weekday tz (dayPointer s) = 6 \<or> weekday tz (dayPointer s) = 7 \<or>
           toISODate tz (dayPointer s) \<in> set (holidays cfg)"
  shows "day_step_part1 tz cfg busySlots s = Some (s\<lparr>dayPointer := dayPointer s + DAY\<rparr>)"
  using assms by (auto simp: day_step_part1_def eligible_part1_def advance_def Let_def)

text \<open>
  C8. The claim holds in part_001 and fails in index.ts and part_000, which test the
  holiday list against \<^verbatim>\<open>dayPointer.toISOString().split('T')[0]\<close>, the date in UTC of the
  host's midnight: east of Greenwich that is the day before. On a host in Berlin, for
  the zone of Berlin, a start at 2024-01-02T00:00:00+01:00 (a Tuesday) and the holiday
  list 2024-01-02, the date tested is 2024-01-01; index.ts and part_000 return the slot
  of the holiday at 09:00, part_001 skips the holiday and returns Wednesday's.
\<close>

theorem holiday_tested_on_utc_date:
  "getDay 3600000 1704150000000 = 2 \<and>
   toISODate 3600000 1704150000000 = ''2024-01-02'' \<and>
   isoDateUTC 1704150000000 = ''2024-01-01'' \<and>
   handle_index env_berlin free_calendar
     (no_args\<lparr>timezone := Some ''Europe/Berlin'', startDate := Some (WithOffset 1704150000000),
        bankHolidays := Some [''2024-01-02''], daysToSearch := Some 1\<rparr>) =
     Some ([\<lparr>timeMin = 1704150000000, timeMax = 1706742000000,
             timeZone = Some ''Europe/Berlin'', items = [''primary'']\<rparr>],
           Content [\<lparr>start_t = 1704182400000, end_t = 1704186000000\<rparr>]) \<and>
   handle_part0 env_berlin free_calendar
     (no_args\<lparr>timezone := Some ''Europe/Berlin'', startDate := Some (WithOffset 1704150000000),
        bankHolidays := Some [''2024-01-02''], daysToSearch := Some 1\<rparr>) =
     Some ([\<lparr>timeMin = 1704150000000, timeMax = 1706742000000,
             timeZone = None, items = [''primary'']\<rparr>],
           Content [\<lparr>start_t = 1704182400000, end_t = 1704186000000\<rparr>]) \<and>
   handle_part1 env_berlin free_calendar
     (no_args\<lparr>timezone := Some ''Europe/Berlin'', startDate := Some (WithOffset 1704150000000),
        bankHolidays := Some [''2024-01-02''], daysToSearch := Some 1\<rparr>) =
     Some ([\<lparr>timeMin = 1704150000000, timeMax = 1706828399999,
             timeZone = Some ''Europe/Berlin'', items = [''primary'']\<rparr>],
           Content [\<lparr>start_t = 1704268800000, end_t = 1704272400000\<rparr>]) \<and>
   localMidnight 3600000 19724 + 9 * HOUR = 1704182400000 \<and>
   localMidnight 3600000 19725 + 9 * HOUR = 1704268800000"
  by code_simp

subsection \<open>The handler validates nothing\<close>











text \<open>In part_001 the same meeting length makes the \<^verbatim>\<open>while\<close> loop of \<^verbatim>\<open>findFreeSlots\<close> run for ever.\<close>

lemma handle_part1_negative_length:
  "handle_part1 env_utc free_calendar
     (no_args\<lparr>meetingLengthMinutes := Some (- 30), startDate := Some (DateOnly 19723)\<rparr>) = None"
proof -
  let ?a = "no_args\<lparr>meetingLengthMinutes := Some (- 30), startDate := Some (DateOnly 19723)\<rparr>"
  have q: "query_part1 env_utc ?a =
     \<lparr>timeMin = 1704067200000, timeMax = 1706745599999,
      timeZone = Some ''America/Sao_Paulo'', items = [''primary'']\<rparr>"
    by code_simp
  have b: "busySlots_of Map.empty (calendars (defaults ?a)) = []" by code_simp
  have z: "zoneOffset env_utc (zoneName (defaults ?a)) = 0" by (simp add: env_utc_def)
  have el: "eligible_part1 0 (defaults ?a) 1704067200000" by code_simp
  have c: "setHour 0 1704067200000 (workStartHour (defaults ?a)) = 1704099600000"
    "setHour 0 1704067200000 (workEndHour (defaults ?a)) = 1704128400000"
    "meetingLength (defaults ?a) = - 30" "toSearch (defaults ?a) = 3"
    by code_simp+
  have f: "findFreeSlots_part1 [] 1704099600000 1704128400000 (- 30) = None"
    by (simp add: findFreeSlots_part1_def sortedBusySlots_def fill_gap_part1_diverges)
  have d: "day_step_part1 0 (defaults ?a) []
      \<lparr>dayPointer = 1704067200000, daysWithSlotsFound = 0, suggestions = []\<rparr> = None"
    using el by (simp add: day_step_part1_def c f)
  have w: "walk_part1 0 (defaults ?a) [] 1706745599999
      \<lparr>dayPointer = 1704067200000, daysWithSlotsFound = 0, suggestions = []\<rparr> = None"
    by (subst walk_part1.simps) (simp add: d c)
  show ?thesis
    unfolding handle_part1_def Let_def q
    by (simp add: free_calendar_def b z w del: walk_part1.simps)
qed



subsection \<open>The start date\<close>

text \<open>
  In part_001 the start date is the midnight, in the request's zone, of the day the
  request names (of the day after today when it names none).
\<close>

lemma localDay_localMidnight: "localDay tz (localMidnight tz d) = d"
  by (simp add: localDay_def localMidnight_def DAY_def)

lemma localDay_plusDays: "localDay tz (plusDays t k) = localDay tz t + k"
proof -
  have "(t + k * 86400000 + tz) div 86400000 = (t + tz + k * 86400000) div 86400000"
    by (simp add: algebra_simps)
  also have "\<dots> = (t + tz) div 86400000 + k" by simp
  finally show ?thesis by (simp add: localDay_def plusDays_def DAY_def)
qed

lemma startDate_part1_is_local_midnight:
  "startDate a = None \<Longrightarrow>
     startDate_part1 e a =
       localMidnight (zoneOffset e (zoneName (defaults a)))
         (localDay (zoneOffset e (zoneName (defaults a))) (now e) + 1)"
  "startDate a = Some (WithOffset t) \<Longrightarrow>
     startDate_part1 e a =
       localMidnight (zoneOffset e (zoneName (defaults a)))
         (localDay (zoneOffset e (zoneName (defaults a))) t)"
  "startDate a = Some (DateOnly d) \<Longrightarrow>
     startDate_part1 e a = localMidnight (zoneOffset e (zoneName (defaults a))) d"
  "startDate a = Some (LocalDateTime d ms) \<Longrightarrow> 0 \<le> ms \<Longrightarrow> ms < DAY \<Longrightarrow>
     startDate_part1 e a = localMidnight (zoneOffset e (zoneName (defaults a))) d"
  by (simp_all add: startDate_part1_def startOfDay_def localDay_plusDays Let_def)
     (simp_all add: localDay_def DAY_def)

text \<open>
  C7. The claim holds in part_001 and fails in index.ts and part_000, which normalise
  with \<^verbatim>\<open>setHours(0, 0, 0, 0)\<close> in the host's zone after \<^verbatim>\<open>new Date(args.startDate)\<close>. On a
  host in the zone of Sao Paulo, for the default zone, the start date 2024-01-02 is read
  as midnight UTC, which is 21:00 of 2024-01-01 there, and both files start on
  2024-01-01. On a host at UTC, for the zone of Sao Paulo, the start date
  2024-01-02T12:00:00Z gives midnight UTC of 2024-01-02 in both files, three hours
  before the midnight of Sao Paulo.
\<close>

theorem start_date_in_host_zone:
  "startDate_index env_sao_paulo (no_args\<lparr>startDate := Some (DateOnly 19724)\<rparr>) =
     localMidnight (- 10800000) 19723 \<and>
   startDate_part0 env_sao_paulo (no_args\<lparr>startDate := Some (DateOnly 19724)\<rparr>) =
     localMidnight (- 10800000) 19723 \<and>
   startDate_part1 env_sao_paulo (no_args\<lparr>startDate := Some (DateOnly 19724)\<rparr>) =
     localMidnight (- 10800000) 19724 \<and>
   isoDate 19724 = ''2024-01-02'' \<and>
   startDate_index env_utc_host (no_args\<lparr>startDate := Some (WithOffset 1704196800000)\<rparr>) =
     localMidnight 0 19724 \<and>
   startDate_part0 env_utc_host (no_args\<lparr>startDate := Some (WithOffset 1704196800000)\<rparr>) =
     localMidnight 0 19724 \<and>
   startDate_part1 env_utc_host (no_args\<lparr>startDate := Some (WithOffset 1704196800000)\<rparr>) =
     localMidnight (- 10800000) 19724 \<and>
   localDay (- 10800000) 1704196800000 = 19724 \<and>
   localMidnight (- 10800000) 19724 - localMidnight 0 19724 = 3 * HOUR"
  by code_simp

end
